theory Spec2Isabelle
  imports Complex_Main "HOL-Library.AList" "HOL-Library.Multiset"
    "HOL-Library.Char_ord" "HOL-Library.List_Lexorder"
begin

section \<open>Values and documents\<close>

text \<open>
  The values a product document holds. A Python \<open>float\<close> is carried, never computed
  with, and is modelled as a rational; a \<open>datetime\<close> is a point on a clock, a natural
  number of ticks; an \<open>ObjectId\<close> is its canonical 24 digit lower case hexadecimal
  rendering, so that equality of identifiers is equality of strings.
\<close>

datatype pyval =
    VNone
  | VBool bool
  | VStr string
  | VFloat rat
  | VDate nat
  | VOid string

text \<open>
  A Python \<open>dict\<close> keeps insertion order: an association list with one entry per key.
  \<open>AList.update\<close> is \<open>d[k] = v\<close> (an existing key keeps its place, a new key goes last),
  \<open>AList.delete\<close> is \<open>d.pop(k, None)\<close>, \<open>map_of\<close> is the lookup.
\<close>

type_synonym doc = "(string \<times> pyval) list"

text \<open>\<open>doc.get(k)\<close>: the value, or \<open>None\<close> for a missing key.\<close>

definition dict_get :: "doc \<Rightarrow> string \<Rightarrow> pyval" where
  "dict_get d k = (case map_of d k of None \<Rightarrow> VNone | Some v \<Rightarrow> v)"

text \<open>
  Python's \<open>str\<close>. The rendering of a float and of a datetime is the interpreter's and
  is taken as the parameter \<open>fmt\<close>; the other cases are written out.
\<close>

fun py_str :: "(pyval \<Rightarrow> string) \<Rightarrow> pyval \<Rightarrow> string" where
  "py_str fmt VNone = ''None''"
| "py_str fmt (VBool b) = (if b then ''True'' else ''False'')"
| "py_str fmt (VStr s) = s"
| "py_str fmt (VOid h) = h"
| "py_str fmt (VFloat x) = fmt (VFloat x)"
| "py_str fmt (VDate t) = fmt (VDate t)"

section \<open>The serializer\<close>

text \<open>
  \<^verbatim>\<open>
  def serialize_doc(doc):
      if not doc:
          return doc
      doc["id"] = str(doc.get("_id"))
      doc.pop("_id", None)
      return doc
  \<close>
  The argument is a dict or \<open>None\<close> (what \<open>find_one\<close> returns). \<open>serialize_dict\<close> is the
  body at a dict, \<open>serialize_doc\<close> the function at its optional argument; \<open>not doc\<close> holds
  of \<open>None\<close> and of the empty dict.
\<close>

definition serialize_dict :: "(pyval \<Rightarrow> string) \<Rightarrow> doc \<Rightarrow> doc" where
  "serialize_dict fmt d =
     (if d = [] then d
      else AList.delete ''_id''
             (AList.update ''id'' (VStr (py_str fmt (dict_get d ''_id''))) d))"

definition serialize_doc :: "(pyval \<Rightarrow> string) \<Rightarrow> doc option \<Rightarrow> doc option" where
  "serialize_doc fmt doc =
     (case doc of None \<Rightarrow> None | Some d \<Rightarrow> Some (serialize_dict fmt d))"

section \<open>Identifiers\<close>

definition is_hex_digit :: "char \<Rightarrow> bool" where
  "is_hex_digit c = (c \<in> set ''0123456789abcdefABCDEF'')"

text \<open>
  Modelled from the spec: \<open>ObjectId.is_valid\<close> and the constructor \<open>ObjectId\<close> belong
  to the store's driver, which is not part of the repository. The identifier syntax
  is the spec's "fixed-length hexadecimal token": 24 hexadecimal digits. The
  identifier built from a valid token is its 12 bytes, here the token in lower case.
\<close>

definition is_valid :: "string \<Rightarrow> bool" where
  "is_valid v = (length v = 24 \<and> list_all is_hex_digit v)"

definition lower_hex :: "char \<Rightarrow> char" where
  "lower_hex c = (case map_of (zip ''ABCDEF'' ''abcdef'') c of None \<Rightarrow> c | Some l \<Rightarrow> l)"

definition ObjectId :: "string \<Rightarrow> string" where
  "ObjectId v = map lower_hex v"

datatype py_exception = ValueError string

text \<open>
  \<^verbatim>\<open>
  def validate(cls, v):
      if isinstance(v, ObjectId):
          return v
      if not ObjectId.is_valid(v):
          raise ValueError("Invalid objectid")
      return ObjectId(v)
  \<close>
  The handlers call it at the path parameter, a \<open>str\<close>, so the first test is false.
\<close>

definition PyObjectId_validate :: "string \<Rightarrow> py_exception + string" where
  "PyObjectId_validate v =
     (if \<not> is_valid v then Inl (ValueError ''Invalid objectid'') else Inr (ObjectId v))"

text \<open>\<open>str(e)\<close> of an exception: its message.\<close>

fun str_exception :: "py_exception \<Rightarrow> string" where
  "str_exception (ValueError m) = m"

section \<open>The document store\<close>

text \<open>
  Modelled from the spec: the store handle \<open>db\<close> comes from the module \<open>database\<close>,
  which is not among the sources, and the operations of a collection are the
  driver's. The handle is \<open>None\<close> or a database. A database holds the two collections,
  each a list of documents in insertion order, and \<open>calls\<close>, the log of the round trips
  made to it. The operations are those of the spec's gateway (find-many-sorted,
  update-one, find-one, delete-one by identifier) on an in-memory store that answers
  every call.
\<close>

datatype store_call =
    Find_sort string
  | Update_one string doc
  | Find_one string
  | Delete_one string

record store =
  product :: "doc list"
  lead :: "doc list"
  calls :: "store_call list"

text \<open>The filter \<open>{"_id": oid}\<close>.\<close>

definition matches :: "string \<Rightarrow> doc \<Rightarrow> bool" where
  "matches oid d = (map_of d ''_id'' = Some (VOid oid))"

text \<open>
  The store's comparison of values of different kinds, lowest first: null, numbers,
  strings, identifiers, booleans, dates. A document without the sort field sorts as
  null (\<open>dict_get\<close>).
\<close>

fun bson_rank :: "pyval \<Rightarrow> nat" where
  "bson_rank VNone = 0"
| "bson_rank (VFloat x) = 1"
| "bson_rank (VStr s) = 2"
| "bson_rank (VOid h) = 3"
| "bson_rank (VBool b) = 4"
| "bson_rank (VDate t) = 5"

fun bson_le :: "pyval \<Rightarrow> pyval \<Rightarrow> bool" where
  "bson_le (VFloat x) (VFloat y) = (x \<le> y)"
| "bson_le (VStr s) (VStr t) = (s \<le> t)"
| "bson_le (VOid g) (VOid h) = (g \<le> h)"
| "bson_le (VBool a) (VBool b) = (a \<le> b)"
| "bson_le (VDate s) (VDate t) = (s \<le> t)"
| "bson_le a b = (bson_rank a \<le> bson_rank b)"

text \<open>\<open>find({}).sort(k, -1)\<close>: every document, the greatest value of field \<open>k\<close> first.\<close>

fun insert_desc :: "string \<Rightarrow> doc \<Rightarrow> doc list \<Rightarrow> doc list" where
  "insert_desc k d [] = [d]"
| "insert_desc k d (e # es) =
     (if bson_le (dict_get e k) (dict_get d k) then d # e # es
      else e # insert_desc k d es)"

definition sort_desc :: "string \<Rightarrow> doc list \<Rightarrow> doc list" where
  "sort_desc k ds = foldr (insert_desc k) ds []"

definition find_sort :: "string \<Rightarrow> store \<Rightarrow> doc list \<times> store" where
  "find_sort k s = (sort_desc k (product s), s\<lparr>calls := calls s @ [Find_sort k]\<rparr>)"

text \<open>\<open>{"$set": data}\<close> at one document: each field of \<open>data\<close> is set.\<close>

definition set_fields :: "doc \<Rightarrow> doc \<Rightarrow> doc" where
  "set_fields data d = fold (\<lambda>(k, v). AList.update k v) data d"

text \<open>
  \<open>update_one\<close> changes the first document that matches and returns
  \<open>matched_count\<close>; \<open>delete_one\<close> removes the first document that matches and returns
  \<open>deleted_count\<close>; \<open>find_one\<close> returns the first document that matches, or \<open>None\<close>.
\<close>

fun update_first :: "string \<Rightarrow> doc \<Rightarrow> doc list \<Rightarrow> nat \<times> doc list" where
  "update_first oid data [] = (0, [])"
| "update_first oid data (d # ds) =
     (if matches oid d then (1, set_fields data d # ds)
      else (fst (update_first oid data ds), d # snd (update_first oid data ds)))"

fun delete_first :: "string \<Rightarrow> doc list \<Rightarrow> nat \<times> doc list" where
  "delete_first oid [] = (0, [])"
| "delete_first oid (d # ds) =
     (if matches oid d then (1, ds)
      else (fst (delete_first oid ds), d # snd (delete_first oid ds)))"

definition update_one :: "string \<Rightarrow> doc \<Rightarrow> store \<Rightarrow> nat \<times> store" where
  "update_one oid data s =
     (fst (update_first oid data (product s)),
      s\<lparr>product := snd (update_first oid data (product s)),
        calls := calls s @ [Update_one oid data]\<rparr>)"

definition find_one :: "string \<Rightarrow> store \<Rightarrow> doc option \<times> store" where
  "find_one oid s = (List.find (matches oid) (product s), s\<lparr>calls := calls s @ [Find_one oid]\<rparr>)"

definition delete_one :: "string \<Rightarrow> store \<Rightarrow> nat \<times> store" where
  "delete_one oid s =
     (fst (delete_first oid (product s)),
      s\<lparr>product := snd (delete_first oid (product s)),
        calls := calls s @ [Delete_one oid]\<rparr>)"

section \<open>The product handlers\<close>

datatype http_error = HTTPException nat string

text \<open>
  \<open>ProductUpdate\<close>: five optional fields. A field of a request was left out
  (\<open>Unset\<close>), sent as \<open>null\<close> (\<open>SetNone\<close>) or sent with a value (\<open>SetTo\<close>).
\<close>

datatype 'a field = Unset | SetNone | SetTo 'a

record ProductUpdate =
  title :: "string field"
  description :: "string field"
  price :: "rat field"
  category :: "string field"
  in_stock :: "bool field"

text \<open>\<open>payload.model_dump(exclude_unset=True)\<close>: the fields that were sent, in order.\<close>

fun dump_field :: "string \<Rightarrow> ('a \<Rightarrow> pyval) \<Rightarrow> 'a field \<Rightarrow> doc" where
  "dump_field k wrap Unset = []"
| "dump_field k wrap SetNone = [(k, VNone)]"
| "dump_field k wrap (SetTo x) = [(k, wrap x)]"

definition model_dump_exclude_unset :: "ProductUpdate \<Rightarrow> doc" where
  "model_dump_exclude_unset p =
     dump_field ''title'' VStr (title p) @
     dump_field ''description'' VStr (description p) @
     dump_field ''price'' VFloat (price p) @
     dump_field ''category'' VStr (category p) @
     dump_field ''in_stock'' VBool (in_stock p)"

text \<open>
  \<^verbatim>\<open>data = {k: v for k, v in payload.model_dump(exclude_unset=True).items()
          if v is not None}\<close>
\<close>

definition update_data :: "ProductUpdate \<Rightarrow> doc" where
  "update_data p = filter (\<lambda>(k, v). v \<noteq> VNone) (model_dump_exclude_unset p)"

text \<open>
  \<^verbatim>\<open>
  def list_products():
      try:
          docs = list(db["product"].find({}).sort("created_at", -1)) if db is not None else []
          return [serialize_doc(d) for d in docs]
      except Exception as e:
          raise HTTPException(status_code=500, detail=str(e))
  \<close>
  A handler takes the store handle and returns its answer and the handle after the
  call.
\<close>

definition list_products ::
  "(pyval \<Rightarrow> string) \<Rightarrow> store option \<Rightarrow> (http_error + doc list) \<times> store option" where
  "list_products fmt db =
     (case db of
        None \<Rightarrow> (Inr [], None)
      | Some s \<Rightarrow>
          (Inr (map (serialize_dict fmt) (fst (find_sort ''created_at'' s))),
           Some (snd (find_sort ''created_at'' s))))"

text \<open>
  \<^verbatim>\<open>
  def update_product(product_id, payload):
      if db is None:
          raise HTTPException(status_code=500, detail="Database not configured")
      try:
          oid = PyObjectId.validate(product_id)
          data = {k: v for k, v in ... if v is not None}
          if not data:
              raise HTTPException(status_code=400, detail="No fields to update")
          data["updated_at"] = datetime.now(timezone.utc)
          res = db["product"].update_one({"_id": oid}, {"$set": data})
          if res.matched_count == 0:
              raise HTTPException(status_code=404, detail="Product not found")
          doc = db["product"].find_one({"_id": oid})
          return serialize_doc(doc)
      except HTTPException:
          raise
      except Exception as e:
          raise HTTPException(status_code=400, detail=str(e))
  \<close>
  \<open>now\<close> is the clock's reading at the call.
\<close>

definition update_product ::
  "(pyval \<Rightarrow> string) \<Rightarrow> nat \<Rightarrow> store option \<Rightarrow> string \<Rightarrow> ProductUpdate
     \<Rightarrow> (http_error + doc option) \<times> store option" where
  "update_product fmt now db product_id payload =
     (case db of
        None \<Rightarrow> (Inl (HTTPException 500 ''Database not configured''), None)
      | Some s \<Rightarrow>
          (case PyObjectId_validate product_id of
             Inl e \<Rightarrow> (Inl (HTTPException 400 (str_exception e)), Some s)
           | Inr oid \<Rightarrow>
               if update_data payload = []
               then (Inl (HTTPException 400 ''No fields to update''), Some s)
               else
                 let data = AList.update ''updated_at'' (VDate now) (update_data payload);
                     res = update_one oid data s
                 in if fst res = 0
                    then (Inl (HTTPException 404 ''Product not found''), Some (snd res))
                    else
                      let found = find_one oid (snd res)
                      in (Inr (serialize_doc fmt (fst found)), Some (snd found))))"

text \<open>
  \<^verbatim>\<open>
  def delete_product(product_id):
      if db is None:
          raise HTTPException(status_code=500, detail="Database not configured")
      try:
          oid = PyObjectId.validate(product_id)
          res = db["product"].delete_one({"_id": oid})
          if res.deleted_count == 0:
              raise HTTPException(status_code=404, detail="Product not found")
          return {"status": "ok"}
      except HTTPException:
          raise
      except Exception as e:
          raise HTTPException(status_code=400, detail=str(e))
  \<close>
\<close>

definition delete_product ::
  "store option \<Rightarrow> string \<Rightarrow> (http_error + doc) \<times> store option" where
  "delete_product db product_id =
     (case db of
        None \<Rightarrow> (Inl (HTTPException 500 ''Database not configured''), None)
      | Some s \<Rightarrow>
          (case PyObjectId_validate product_id of
             Inl e \<Rightarrow> (Inl (HTTPException 400 (str_exception e)), Some s)
           | Inr oid \<Rightarrow>
               let res = delete_one oid s
               in if fst res = 0
                  then (Inl (HTTPException 404 ''Product not found''), Some (snd res))
                  else (Inr [(''status'', VStr ''ok'')], Some (snd res))))"

text \<open>The store's invariant: no two documents of a collection share an identifier.\<close>

definition unique_ids :: "doc list \<Rightarrow> bool" where
  "unique_ids ds = distinct (map (\<lambda>d. map_of d ''_id'') ds)"

section \<open>Requests and a store used in examples\<close>

text \<open>The request that sends only \<open>price\<close>, and the request \<open>{}\<close>.\<close>

definition price_only :: "rat \<Rightarrow> ProductUpdate" where
  "price_only x = \<lparr>title = Unset, description = Unset, price = SetTo x, category = Unset, in_stock = Unset\<rparr>"

definition empty_payload :: ProductUpdate where
  "empty_payload = \<lparr>title = Unset, description = Unset, price = Unset, category = Unset, in_stock = Unset\<rparr>"

text \<open>A store that holds two products.\<close>

definition sample_store :: store where
  "sample_store =
     \<lparr>product =
        [[(''_id'', VOid ''0123456789abcdef01234567''), (''title'', VStr ''Tree''),
          (''price'', VFloat 5), (''created_at'', VDate 1)],
         [(''_id'', VOid ''aaaaaaaaaaaaaaaaaaaaaaaa''), (''title'', VStr ''Star''),
          (''created_at'', VDate 7)]],
      lead = [], calls = []\<rparr>"

section \<open>Null fields of a request\<close>

text \<open>
  A request with its \<open>null\<close> fields left out; a request that sends nothing but
  \<open>null\<close>s; and the relation between a document before and after a write under which
  no field has become \<open>null\<close>.
\<close>

fun null_to_unset :: "'a field \<Rightarrow> 'a field" where
  "null_to_unset SetNone = Unset"
| "null_to_unset f = f"

definition without_nulls :: "ProductUpdate \<Rightarrow> ProductUpdate" where
  "without_nulls p =
     \<lparr>title = null_to_unset (title p), description = null_to_unset (description p),
      price = null_to_unset (price p), category = null_to_unset (category p),
      in_stock = null_to_unset (in_stock p)\<rparr>"

definition only_nulls :: "ProductUpdate \<Rightarrow> bool" where
  "only_nulls p =
     (title p \<in> {Unset, SetNone} \<and> description p \<in> {Unset, SetNone}
      \<and> price p \<in> {Unset, SetNone} \<and> category p \<in> {Unset, SetNone}
      \<and> in_stock p \<in> {Unset, SetNone})"

definition keeps_non_null :: "doc \<Rightarrow> doc \<Rightarrow> bool" where
  "keeps_non_null d d' = (\<forall>k. map_of d' k = Some VNone \<longrightarrow> map_of d k = Some VNone)"

definition null_price :: ProductUpdate where
  "null_price = \<lparr>title = Unset, description = Unset, price = SetNone, category = Unset, in_stock = Unset\<rparr>"

section \<open>Properties of the serializer\<close>

lemma delete_absent: "map_of d k = None \<Longrightarrow> AList.delete k d = d"
  by (induction d) (auto simp: AList.delete_eq split: if_splits)

text \<open>
  C8. For a non-empty document that carries the internal identifier field \<open>_id\<close>, the
  client view is the input with \<open>_id\<close> removed and \<open>id\<close> set to the string form of the
  identifier: as a mapping it agrees with the input on every other field, and \<open>_id\<close>
  is not a field of it.
\<close>

theorem serialize_doc_client_view:
  assumes "d \<noteq> []" and "map_of d ''_id'' = Some i"
  shows "\<exists>d'. serialize_doc fmt (Some d) = Some d'
           \<and> map_of d' = (map_of d)(''id'' \<mapsto> VStr (py_str fmt i), ''_id'' := None)
           \<and> map_of d' ''id'' = Some (VStr (py_str fmt i))
           \<and> map_of d' ''_id'' = None
           \<and> ''_id'' \<notin> fst ` set d'"
proof -
  let ?d' = "AList.delete ''_id'' (AList.update ''id'' (VStr (py_str fmt i)) d)"
  have get: "dict_get d ''_id'' = i"
    using assms(2) by (simp add: dict_get_def)
  have run: "serialize_doc fmt (Some d) = Some ?d'"
    using assms(1) get by (simp add: serialize_doc_def serialize_dict_def)
  have m: "map_of ?d' = (map_of d)(''id'' \<mapsto> VStr (py_str fmt i), ''_id'' := None)"
    by (simp add: delete_conv' update_conv')
  have k: "''_id'' \<notin> fst ` set ?d'"
    by (auto simp: AList.delete_eq)
  from run m k show ?thesis by simp
qed

theorem serialize_doc_client_view_witness:
  "\<exists>d'. serialize_doc (\<lambda>_. [])
          (Some [(''_id'', VOid ''0123456789abcdef01234567''), (''title'', VStr ''Tree'')])
        = Some d'
      \<and> map_of d' ''title'' = Some (VStr ''Tree'')
      \<and> map_of d' ''id'' = Some (VStr ''0123456789abcdef01234567'')
      \<and> map_of d' ''_id'' = None"
  using serialize_doc_client_view
    [of "[(''_id'', VOid ''0123456789abcdef01234567''), (''title'', VStr ''Tree'')]"
        "VOid ''0123456789abcdef01234567''" "\<lambda>_. []"]
  by auto

text \<open>
  C9. The serializer returns an absent document (\<open>None\<close>) and an empty document as they
  are.
\<close>

theorem serialize_doc_passthrough:
  "serialize_doc fmt None = None \<and> serialize_doc fmt (Some []) = Some []"
  by (simp add: serialize_doc_def serialize_dict_def)

text \<open>
  C10. For a non-empty document without the field \<open>_id\<close> the serializer returns a
  result: the document with \<open>id\<close> set to the string \<open>None\<close> and every other field as it
  was.
\<close>

theorem serialize_doc_missing_id:
  assumes "d \<noteq> []" and "map_of d ''_id'' = None"
  shows "serialize_doc fmt (Some d) = Some (AList.update ''id'' (VStr ''None'') d)
       \<and> map_of (AList.update ''id'' (VStr ''None'') d) = (map_of d)(''id'' \<mapsto> VStr ''None'')"
proof -
  have get: "dict_get d ''_id'' = VNone"
    using assms(2) by (simp add: dict_get_def)
  have absent: "map_of (AList.update ''id'' (VStr ''None'') d) ''_id'' = None"
    using assms(2) by (simp add: update_conv')
  have "serialize_doc fmt (Some d)
      = Some (AList.delete ''_id'' (AList.update ''id'' (VStr ''None'') d))"
    using assms(1) get by (simp add: serialize_doc_def serialize_dict_def)
  with delete_absent [OF absent] show ?thesis
    by (simp add: update_conv')
qed

theorem serialize_doc_missing_id_witness:
  "serialize_doc (\<lambda>_. []) (Some [(''title'', VStr ''Tree'')])
     = Some [(''title'', VStr ''Tree''), (''id'', VStr ''None'')]"
  using serialize_doc_missing_id [of "[(''title'', VStr ''Tree'')]" "\<lambda>_. []"]
  by simp

section \<open>Properties of the handlers\<close>

lemma validate_invalid:
  "\<not> is_valid v \<Longrightarrow> PyObjectId_validate v = Inl (ValueError ''Invalid objectid'')"
  by (simp add: PyObjectId_validate_def)

lemma validate_valid: "is_valid v \<Longrightarrow> PyObjectId_validate v = Inr (ObjectId v)"
  by (simp add: PyObjectId_validate_def)

lemma update_data_empty [simp]: "update_data empty_payload = []"
  by (simp add: update_data_def model_dump_exclude_unset_def empty_payload_def)

text \<open>
  C2, as the code has it. The handlers test the store handle first. With a store, an
  identifier that is not valid makes update and delete fail with status 400 and the
  detail \<open>Invalid objectid\<close>, and the store is returned as it was: no document changed and
  no call logged. Without a store both fail with status 500. In neither case is the
  failure a 404.
\<close>

theorem invalid_identifier_rejected:
  assumes "\<not> is_valid pid"
  shows "update_product fmt now (Some s) pid payload
           = (Inl (HTTPException 400 ''Invalid objectid''), Some s)
       \<and> delete_product (Some s) pid = (Inl (HTTPException 400 ''Invalid objectid''), Some s)
       \<and> update_product fmt now None pid payload
           = (Inl (HTTPException 500 ''Database not configured''), None)
       \<and> delete_product None pid = (Inl (HTTPException 500 ''Database not configured''), None)"
  using assms by (simp add: update_product_def delete_product_def validate_invalid)

theorem invalid_identifier_rejected_witness:
  "\<not> is_valid ''12ab''
   \<and> update_product (\<lambda>_. []) 9 (Some sample_store) ''12ab'' (price_only 3)
       = (Inl (HTTPException 400 ''Invalid objectid''), Some sample_store)
   \<and> delete_product (Some sample_store) ''12ab''
       = (Inl (HTTPException 400 ''Invalid objectid''), Some sample_store)"
proof -
  have bad: "\<not> is_valid ''12ab''" by (simp add: is_valid_def)
  from invalid_identifier_rejected [OF bad, of "\<lambda>_. []" 9 sample_store "price_only 3"] bad
  show ?thesis by simp
qed

text \<open>
  C2 as stated fails where the store handle is absent: the identifier is not valid and
  the answer is the 500 of the missing store, not a 400.
\<close>

theorem invalid_identifier_store_absent:
  "\<not> is_valid ''12ab''
   \<and> fst (update_product (\<lambda>_. []) 9 None ''12ab'' (price_only 3))
       = Inl (HTTPException 500 ''Database not configured'')
   \<and> fst (delete_product None ''12ab'') = Inl (HTTPException 500 ''Database not configured'')"
  by (simp add: is_valid_def update_product_def delete_product_def)

text \<open>
  C5, as the code has it. With a store and a valid identifier, the request \<open>{}\<close> fails
  with status 400 and the detail \<open>No fields to update\<close>, and the store is returned as it
  was. Without a store it fails with status 500.
\<close>

theorem empty_payload_rejected:
  assumes "is_valid pid"
  shows "update_product fmt now (Some s) pid empty_payload
           = (Inl (HTTPException 400 ''No fields to update''), Some s)
       \<and> update_product fmt now None pid empty_payload
           = (Inl (HTTPException 500 ''Database not configured''), None)"
  using assms by (simp add: update_product_def validate_valid)

theorem empty_payload_rejected_witness:
  "is_valid ''0123456789abcdef01234567''
   \<and> update_product (\<lambda>_. []) 9 (Some sample_store) ''0123456789abcdef01234567'' empty_payload
       = (Inl (HTTPException 400 ''No fields to update''), Some sample_store)"
proof -
  have ok: "is_valid ''0123456789abcdef01234567''"
    by (simp add: is_valid_def is_hex_digit_def)
  from empty_payload_rejected [OF ok, of "\<lambda>_. []" 9 sample_store] ok
  show ?thesis by simp
qed

text \<open>
  C5 as stated fails where the store handle is absent: the identifier is valid, the
  request is \<open>{}\<close>, and the answer is the 500 of the missing store.
\<close>

theorem empty_payload_store_absent:
  "is_valid ''0123456789abcdef01234567''
   \<and> fst (update_product (\<lambda>_. []) 9 None ''0123456789abcdef01234567'' empty_payload)
       = Inl (HTTPException 500 ''Database not configured'')"
  by (simp add: is_valid_def is_hex_digit_def update_product_def)

lemma delete_first_count: "fst (delete_first oid ds) = (if \<exists>d \<in> set ds. matches oid d then 1 else 0)"
  by (induction ds) auto

lemma delete_first_no_match: "unique_ids ds \<Longrightarrow> \<forall>d \<in> set (snd (delete_first oid ds)). \<not> matches oid d"
proof (induction ds)
  case Nil
  then show ?case by simp
next
  case (Cons d ds)
  show ?case
  proof (cases "matches oid d")
    case True
    from Cons.prems have "map_of d ''_id'' \<notin> (\<lambda>e. map_of e ''_id'') ` set ds"
      by (simp add: unique_ids_def)
    with True have "\<forall>e \<in> set ds. \<not> matches oid e"
      by (force simp: matches_def image_iff)
    with True show ?thesis by simp
  next
    case False
    from Cons.prems have "unique_ids ds" by (simp add: unique_ids_def)
    with Cons.IH False show ?thesis by simp
  qed
qed

lemma delete_first_twice: "unique_ids ds \<Longrightarrow> fst (delete_first oid (snd (delete_first oid ds))) = 0"
  using delete_first_no_match [of ds oid] by (simp add: delete_first_count)

text \<open>
  C4. With a store and a valid identifier, delete answers \<open>{status: ok}\<close> exactly when
  \<open>delete_one\<close> counts one deleted document and fails with 404 exactly when it
  counts none; it counts at most one. Where identifiers are unique in the collection,
  a second delete of the same identifier fails with 404.
\<close>

theorem delete_product_outcome:
  assumes "is_valid pid"
  shows "(fst (delete_product (Some s) pid) = Inr [(''status'', VStr ''ok'')]
            \<longleftrightarrow> fst (delete_one (ObjectId pid) s) = 1)
       \<and> (fst (delete_product (Some s) pid) = Inl (HTTPException 404 ''Product not found'')
            \<longleftrightarrow> fst (delete_one (ObjectId pid) s) = 0)
       \<and> fst (delete_one (ObjectId pid) s) \<le> 1
       \<and> snd (delete_product (Some s) pid) = Some (snd (delete_one (ObjectId pid) s))
       \<and> (unique_ids (product s) \<longrightarrow>
            fst (delete_product (snd (delete_product (Some s) pid)) pid)
              = Inl (HTTPException 404 ''Product not found''))"
proof -
  let ?oid = "ObjectId pid"
  have v: "PyObjectId_validate pid = Inr ?oid"
    using assms by (rule validate_valid)
  have n: "fst (delete_one ?oid s) = 0 \<or> fst (delete_one ?oid s) = 1"
    by (simp add: delete_one_def delete_first_count)
  have st: "snd (delete_product (Some s) pid) = Some (snd (delete_one ?oid s))"
    by (simp add: delete_product_def v Let_def)
  have r: "fst (delete_product (Some s) pid)
             = (if fst (delete_one ?oid s) = 0 then Inl (HTTPException 404 ''Product not found'')
                else Inr [(''status'', VStr ''ok'')])"
    by (simp add: delete_product_def v Let_def)
  have again: "fst (delete_product (snd (delete_product (Some s) pid)) pid)
                 = Inl (HTTPException 404 ''Product not found'')"
    if "unique_ids (product s)"
  proof -
    have "fst (delete_one ?oid (snd (delete_one ?oid s))) = 0"
      using that by (simp add: delete_one_def delete_first_twice)
    then show ?thesis
      by (simp add: st delete_product_def v Let_def)
  qed
  from n r st again show ?thesis by auto
qed

theorem delete_product_outcome_witness:
  "is_valid ''0123456789abcdef01234567'' \<and> unique_ids (product sample_store)
   \<and> fst (delete_product (Some sample_store) ''0123456789abcdef01234567'')
       = Inr [(''status'', VStr ''ok'')]
   \<and> fst (delete_one (ObjectId ''0123456789abcdef01234567'') sample_store) = 1
   \<and> fst (delete_product
            (snd (delete_product (Some sample_store) ''0123456789abcdef01234567''))
            ''0123456789abcdef01234567'')
       = Inl (HTTPException 404 ''Product not found'')"
proof -
  have ok: "is_valid ''0123456789abcdef01234567''"
    by (simp add: is_valid_def is_hex_digit_def)
  have u: "unique_ids (product sample_store)"
    by (simp add: unique_ids_def sample_store_def)
  have one: "fst (delete_one (ObjectId ''0123456789abcdef01234567'') sample_store) = 1"
    by (simp add: delete_one_def sample_store_def matches_def ObjectId_def lower_hex_def)
  from delete_product_outcome [OF ok, of sample_store] ok u one
  show ?thesis by blast
qed

lemma update_first_count:
  "fst (update_first oid data ds) = (if \<exists>d \<in> set ds. matches oid d then 1 else 0)"
  by (induction ds) auto

lemma update_first_no_match:
  "\<forall>d \<in> set ds. \<not> matches oid d \<Longrightarrow> snd (update_first oid data ds) = ds"
  by (induction ds) auto

lemma update_first_zero:
  "fst (update_first oid data ds) = 0 \<Longrightarrow> snd (update_first oid data ds) = ds"
  by (rule update_first_no_match) (simp add: update_first_count split: if_splits)

lemma update_first_split:
  "List.find (matches oid) ds = Some d \<Longrightarrow>
   \<exists>pre post. ds = pre @ d # post \<and> (\<forall>e \<in> set pre. \<not> matches oid e)
     \<and> update_first oid data ds = (1, pre @ set_fields data d # post)"
proof (induction ds)
  case Nil
  then show ?case by simp
next
  case (Cons e es)
  show ?case
  proof (cases "matches oid e")
    case True
    with Cons.prems have "e = d" by simp
    with True have "e # es = [] @ d # es \<and> (\<forall>x \<in> set []. \<not> matches oid x)
        \<and> update_first oid data (e # es) = (1, [] @ set_fields data d # es)"
      by simp
    then show ?thesis by blast
  next
    case False
    with Cons.prems have "List.find (matches oid) es = Some d" by simp
    from Cons.IH [OF this] obtain pre post where
      es: "es = pre @ d # post" and pre: "\<forall>x \<in> set pre. \<not> matches oid x"
      and up: "update_first oid data es = (1, pre @ set_fields data d # post)"
      by blast
    from False es pre up have "e # es = (e # pre) @ d # post
        \<and> (\<forall>x \<in> set (e # pre). \<not> matches oid x)
        \<and> update_first oid data (e # es) = (1, (e # pre) @ set_fields data d # post)"
      by simp
    then show ?thesis by blast
  qed
qed

lemma find_Some_matches: "List.find P ds = Some d \<Longrightarrow> P d"
  by (induction ds) (auto split: if_splits)

lemma find_after_prefix:
  "\<forall>e \<in> set pre. \<not> P e \<Longrightarrow> P d \<Longrightarrow> List.find P (pre @ d # post) = Some d"
  by (induction pre) auto

lemma set_fields_other:
  "k \<notin> fst ` set data \<Longrightarrow> map_of (set_fields data d) k = map_of d k"
  unfolding set_fields_def
  by (induction data arbitrary: d) (auto simp: update_conv')

lemma update_data_keys:
  "fst ` set (update_data p)
     \<subseteq> {''title'', ''description'', ''price'', ''category'', ''in_stock''}"
  unfolding update_data_def model_dump_exclude_unset_def
  by (cases "title p"; cases "description p"; cases "price p"; cases "category p";
      cases "in_stock p") auto

lemma stamped_no_id:
  "''_id'' \<notin> fst ` set (AList.update ''updated_at'' v (update_data p))"
proof -
  have "fst ` set (AList.update ''updated_at'' v (update_data p))
          = insert ''updated_at'' (fst ` set (update_data p))"
    by (simp add: dom_update)
  with update_data_keys [of p] show ?thesis by auto
qed

lemma update_one_found:
  assumes "List.find (matches oid) (product s) = Some d" and "''_id'' \<notin> fst ` set data"
  shows "\<exists>pre post. product s = pre @ d # post
           \<and> update_one oid data s
               = (1, s\<lparr>product := pre @ set_fields data d # post,
                       calls := calls s @ [Update_one oid data]\<rparr>)
           \<and> List.find (matches oid) (pre @ set_fields data d # post)
               = Some (set_fields data d)"
proof -
  from update_first_split [OF assms(1), of data] obtain pre post where
    ds: "product s = pre @ d # post" and pre: "\<forall>e \<in> set pre. \<not> matches oid e"
    and up: "update_first oid data (product s) = (1, pre @ set_fields data d # post)"
    by blast
  have "matches oid d" using assms(1) by (rule find_Some_matches)
  with assms(2) have "matches oid (set_fields data d)"
    by (simp add: matches_def set_fields_other)
  with pre have "List.find (matches oid) (pre @ set_fields data d # post)
                   = Some (set_fields data d)"
    by (rule find_after_prefix)
  with ds up show ?thesis
    by (intro exI [of _ pre] exI [of _ post]) (simp add: update_one_def)
qed

lemma find_None_iff_no_match: "List.find P ds = None \<longleftrightarrow> (\<forall>d \<in> set ds. \<not> P d)"
  by (induction ds) auto

text \<open>
  C3. With a store, a valid identifier and a non-empty update set: when \<open>update_one\<close>
  matches no document, update fails with 404 and both collections are as before;
  otherwise it reads the document again by the same identifier, right after the
  update, finds it, and answers its client view.
\<close>

theorem update_product_outcome:
  assumes "is_valid pid" and "update_data payload \<noteq> []"
  shows "let oid = ObjectId pid;
             data = AList.update ''updated_at'' (VDate now) (update_data payload);
             res = update_one oid data s
         in if fst res = 0
            then update_product fmt now (Some s) pid payload
                   = (Inl (HTTPException 404 ''Product not found''), Some (snd res))
               \<and> product (snd res) = product s \<and> lead (snd res) = lead s
            else (\<exists>d' s'. update_product fmt now (Some s) pid payload
                           = (Inr (Some (serialize_dict fmt d')), Some s')
                    \<and> List.find (matches oid) (product (snd res)) = Some d'
                    \<and> product s' = product (snd res) \<and> lead s' = lead s
                    \<and> calls s' = calls s @ [Update_one oid data, Find_one oid])"
proof -
  define oid where "oid = ObjectId pid"
  define data where "data = AList.update ''updated_at'' (VDate now) (update_data payload)"
  define res where "res = update_one oid data s"
  have v: "PyObjectId_validate pid = Inr oid"
    using assms(1) by (simp add: validate_valid oid_def)
  have run: "update_product fmt now (Some s) pid payload
      = (if fst res = 0 then (Inl (HTTPException 404 ''Product not found''), Some (snd res))
         else (Inr (serialize_doc fmt (fst (find_one oid (snd res)))),
               Some (snd (find_one oid (snd res)))))"
    using assms(2) by (simp add: update_product_def v Let_def data_def res_def)
  have goal: "if fst res = 0
      then update_product fmt now (Some s) pid payload
             = (Inl (HTTPException 404 ''Product not found''), Some (snd res))
         \<and> product (snd res) = product s \<and> lead (snd res) = lead s
      else (\<exists>d' s'. update_product fmt now (Some s) pid payload
                     = (Inr (Some (serialize_dict fmt d')), Some s')
              \<and> List.find (matches oid) (product (snd res)) = Some d'
              \<and> product s' = product (snd res) \<and> lead s' = lead s
              \<and> calls s' = calls s @ [Update_one oid data, Find_one oid])"
  proof (cases "fst res = 0")
    case True
    then have "product (snd res) = product s"
      by (simp add: res_def update_one_def update_first_zero)
    moreover have "lead (snd res) = lead s"
      by (simp add: res_def update_one_def)
    ultimately show ?thesis using True run by simp
  next
    case False
    then have "\<exists>d \<in> set (product s). matches oid d"
      by (simp add: res_def update_one_def update_first_count split: if_splits)
    then obtain d where d: "List.find (matches oid) (product s) = Some d"
      using find_None_iff_no_match [of "matches oid" "product s"] by fastforce
    have noid: "''_id'' \<notin> fst ` set data"
      unfolding data_def by (rule stamped_no_id)
    from update_one_found [OF d noid] obtain pre post where
      r: "res = (1, s\<lparr>product := pre @ set_fields data d # post,
                      calls := calls s @ [Update_one oid data]\<rparr>)"
      and f: "List.find (matches oid) (pre @ set_fields data d # post)
                = Some (set_fields data d)"
      unfolding res_def by blast
    let ?s' = "snd (find_one oid (snd res))"
    have "update_product fmt now (Some s) pid payload
            = (Inr (Some (serialize_dict fmt (set_fields data d))), Some ?s')"
      using run r f by (simp add: find_one_def serialize_doc_def)
    moreover have "List.find (matches oid) (product (snd res)) = Some (set_fields data d)"
      using r f by simp
    moreover have "product ?s' = product (snd res)" "lead ?s' = lead s"
      "calls ?s' = calls s @ [Update_one oid data, Find_one oid]"
      using r by (simp_all add: find_one_def)
    ultimately show ?thesis using False by auto
  qed
  then show ?thesis
    unfolding Let_def res_def data_def oid_def .
qed

theorem update_product_outcome_witness:
  "is_valid ''0123456789abcdef01234567'' \<and> is_valid ''0123456789abcdef01234560''
   \<and> update_data (price_only 3) \<noteq> []
   \<and> update_product (\<lambda>_. []) 9 (Some sample_store) ''0123456789abcdef01234560'' (price_only 3)
       = (Inl (HTTPException 404 ''Product not found''),
          Some (sample_store\<lparr>calls := [Update_one ''0123456789abcdef01234560''
                  [(''price'', VFloat 3), (''updated_at'', VDate 9)]]\<rparr>))
   \<and> fst (update_product (\<lambda>_. []) 9 (Some sample_store) ''0123456789abcdef01234567''
            (price_only 3))
       = Inr (Some [(''title'', VStr ''Tree''), (''price'', VFloat 3), (''created_at'', VDate 1),
                    (''updated_at'', VDate 9), (''id'', VStr ''0123456789abcdef01234567'')])"
proof -
  have ok: "is_valid ''0123456789abcdef01234567''" "is_valid ''0123456789abcdef01234560''"
    by (simp_all add: is_valid_def is_hex_digit_def)
  have ne: "update_data (price_only 3) \<noteq> []"
    by (simp add: update_data_def model_dump_exclude_unset_def price_only_def)
  from update_product_outcome [OF ok(2) ne, of 9 sample_store "\<lambda>_. []"]
       update_product_outcome [OF ok(1) ne, of 9 sample_store "\<lambda>_. []"] ok ne
  show ?thesis
    by (auto simp add: Let_def update_one_def sample_store_def matches_def ObjectId_def lower_hex_def
        update_data_def model_dump_exclude_unset_def price_only_def set_fields_def
        serialize_dict_def dict_get_def)
qed

text \<open>
  C1. For a stored product and a request that sends only \<open>price\<close>, update succeeds;
  the stored document changes in \<open>price\<close> and \<open>updated_at\<close> and in nothing else (so
  \<open>title\<close>, \<open>description\<close>, \<open>category\<close> and \<open>in_stock\<close> are as before), every other
  document is as before, and \<open>updated_at\<close> is the time of the call.
\<close>

theorem update_price_only:
  assumes "is_valid pid" and "List.find (matches (ObjectId pid)) (product s) = Some d"
  shows "\<exists>d' pre post s'.
           update_product fmt now (Some s) pid (price_only p)
             = (Inr (Some (serialize_dict fmt d')), Some s')
         \<and> product s = pre @ d # post \<and> product s' = pre @ d' # post \<and> lead s' = lead s
         \<and> List.find (matches (ObjectId pid)) (product s') = Some d'
         \<and> map_of d' = (map_of d)(''price'' \<mapsto> VFloat p, ''updated_at'' \<mapsto> VDate now)
         \<and> map_of d' ''title'' = map_of d ''title''
         \<and> map_of d' ''description'' = map_of d ''description''
         \<and> map_of d' ''category'' = map_of d ''category''
         \<and> map_of d' ''in_stock'' = map_of d ''in_stock''
         \<and> map_of d' ''price'' = Some (VFloat p)
         \<and> map_of d' ''updated_at'' = Some (VDate now)"
proof -
  let ?oid = "ObjectId pid"
  let ?data = "[(''price'', VFloat p), (''updated_at'', VDate now)]"
  let ?d' = "set_fields ?data d"
  have v: "PyObjectId_validate pid = Inr ?oid"
    using assms(1) by (rule validate_valid)
  have data: "update_data (price_only p) = [(''price'', VFloat p)]"
    by (simp add: update_data_def model_dump_exclude_unset_def price_only_def)
  have noid: "''_id'' \<notin> fst ` set ?data" by simp
  from update_one_found [OF assms(2) noid] obtain pre post where
    ds: "product s = pre @ d # post"
    and up: "update_one ?oid ?data s
               = (1, s\<lparr>product := pre @ ?d' # post, calls := calls s @ [Update_one ?oid ?data]\<rparr>)"
    and f: "List.find (matches ?oid) (pre @ ?d' # post) = Some ?d'"
    by blast
  let ?s' = "s\<lparr>product := pre @ ?d' # post,
               calls := calls s @ [Update_one ?oid ?data, Find_one ?oid]\<rparr>"
  have run: "update_product fmt now (Some s) pid (price_only p)
               = (Inr (Some (serialize_dict fmt ?d')), Some ?s')"
    by (simp add: update_product_def v data up f find_one_def serialize_doc_def)
  have m: "map_of ?d' = (map_of d)(''price'' \<mapsto> VFloat p, ''updated_at'' \<mapsto> VDate now)"
    by (simp add: set_fields_def update_conv')
  have "update_product fmt now (Some s) pid (price_only p)
             = (Inr (Some (serialize_dict fmt ?d')), Some ?s')
         \<and> product s = pre @ d # post \<and> product ?s' = pre @ ?d' # post \<and> lead ?s' = lead s
         \<and> List.find (matches (ObjectId pid)) (product ?s') = Some ?d'
         \<and> map_of ?d' = (map_of d)(''price'' \<mapsto> VFloat p, ''updated_at'' \<mapsto> VDate now)
         \<and> map_of ?d' ''title'' = map_of d ''title''
         \<and> map_of ?d' ''description'' = map_of d ''description''
         \<and> map_of ?d' ''category'' = map_of d ''category''
         \<and> map_of ?d' ''in_stock'' = map_of d ''in_stock''
         \<and> map_of ?d' ''price'' = Some (VFloat p)
         \<and> map_of ?d' ''updated_at'' = Some (VDate now)"
    using run ds f by (simp add: m)
  then show ?thesis by blast
qed

theorem update_price_only_witness:
  "is_valid ''0123456789abcdef01234567''
   \<and> List.find (matches (ObjectId ''0123456789abcdef01234567'')) (product sample_store)
       = Some [(''_id'', VOid ''0123456789abcdef01234567''), (''title'', VStr ''Tree''),
               (''price'', VFloat 5), (''created_at'', VDate 1)]
   \<and> (\<exists>d' s'. update_product (\<lambda>_. []) 9 (Some sample_store) ''0123456789abcdef01234567''
                 (price_only 3)
               = (Inr (Some (serialize_dict (\<lambda>_. []) d')), Some s')
          \<and> map_of d' ''title'' = Some (VStr ''Tree'')
          \<and> map_of d' ''price'' = Some (VFloat 3)
          \<and> map_of d' ''updated_at'' = Some (VDate 9))"
proof -
  have ok: "is_valid ''0123456789abcdef01234567''"
    by (simp add: is_valid_def is_hex_digit_def)
  have stored: "List.find (matches (ObjectId ''0123456789abcdef01234567'')) (product sample_store)
       = Some [(''_id'', VOid ''0123456789abcdef01234567''), (''title'', VStr ''Tree''),
               (''price'', VFloat 5), (''created_at'', VDate 1)]"
    by (simp add: sample_store_def matches_def ObjectId_def lower_hex_def)
  from update_price_only [OF ok stored, of "\<lambda>_. []" 9 3] ok stored
  show ?thesis by auto
qed

section \<open>Listing\<close>

lemma bson_le_total: "bson_le a b \<or> bson_le b a"
  by (cases a; cases b) auto

lemma bson_le_trans: "bson_le a b \<Longrightarrow> bson_le b c \<Longrightarrow> bson_le a c"
  by (cases a; cases b; cases c) auto

lemma mset_insert_desc: "mset (insert_desc k d es) = add_mset d (mset es)"
  by (induction es) auto

lemma mset_sort_desc: "mset (sort_desc k ds) = mset ds"
  unfolding sort_desc_def by (induction ds) (auto simp: mset_insert_desc)

lemma set_insert_desc: "set (insert_desc k d es) = insert d (set es)"
  by (induction es) auto

lemma sorted_insert_desc:
  "sorted_wrt (\<lambda>a b. bson_le (dict_get b k) (dict_get a k)) es \<Longrightarrow>
   sorted_wrt (\<lambda>a b. bson_le (dict_get b k) (dict_get a k)) (insert_desc k d es)"
proof (induction es)
  case Nil
  then show ?case by simp
next
  case (Cons e es)
  show ?case
  proof (cases "bson_le (dict_get e k) (dict_get d k)")
    case True
    with Cons.prems show ?thesis
      by (auto intro: bson_le_trans)
  next
    case False
    then have "bson_le (dict_get d k) (dict_get e k)"
      using bson_le_total by blast
    with False Cons show ?thesis
      by (auto simp: set_insert_desc)
  qed
qed

lemma sorted_sort_desc:
  "sorted_wrt (\<lambda>a b. bson_le (dict_get b k) (dict_get a k)) (sort_desc k ds)"
  unfolding sort_desc_def by (induction ds) (auto intro: sorted_insert_desc)

lemma serialize_dict_other:
  "k \<noteq> ''id'' \<Longrightarrow> k \<noteq> ''_id'' \<Longrightarrow> dict_get (serialize_dict fmt d) k = dict_get d k"
  by (simp add: serialize_dict_def dict_get_def delete_conv' update_conv')

lemma sorted_wrt_serialize:
  "sorted_wrt (\<lambda>a b. bson_le (dict_get b ''created_at'') (dict_get a ''created_at'')) ds \<Longrightarrow>
   sorted_wrt (\<lambda>a b. bson_le (dict_get b ''created_at'') (dict_get a ''created_at''))
     (map (serialize_dict fmt) ds)"
  by (simp add: sorted_wrt_map serialize_dict_other)

text \<open>
  C7. Without a store handle, listing answers the empty sequence. With one, it answers
  the client views of all stored products (each exactly once) with the greatest
  \<open>created_at\<close> first, after one \<open>find\<close> call that leaves the collections as they are.
  With no stored product the answer is the empty sequence.
\<close>

theorem list_products_newest_first:
  "list_products fmt None = (Inr [], None)
   \<and> (\<exists>views. list_products fmt (Some s)
                 = (Inr views, Some (s\<lparr>calls := calls s @ [Find_sort ''created_at'']\<rparr>))
          \<and> views = map (serialize_dict fmt) (sort_desc ''created_at'' (product s))
          \<and> mset views = mset (map (serialize_dict fmt) (product s))
          \<and> sorted_wrt (\<lambda>a b. bson_le (dict_get b ''created_at'') (dict_get a ''created_at''))
               views)
   \<and> fst (list_products fmt (Some (s\<lparr>product := []\<rparr>))) = Inr []"
proof -
  let ?ds = "sort_desc ''created_at'' (product s)"
  have a: "list_products fmt None = (Inr [], None)"
    by (simp add: list_products_def)
  have b: "list_products fmt (Some s)
             = (Inr (map (serialize_dict fmt) ?ds),
                Some (s\<lparr>calls := calls s @ [Find_sort ''created_at'']\<rparr>))"
    by (simp add: list_products_def find_sort_def)
  have c: "mset (map (serialize_dict fmt) ?ds) = mset (map (serialize_dict fmt) (product s))"
    by (simp add: mset_sort_desc)
  have d: "sorted_wrt (\<lambda>a b. bson_le (dict_get b ''created_at'') (dict_get a ''created_at''))
             (map (serialize_dict fmt) ?ds)"
    by (rule sorted_wrt_serialize) (rule sorted_sort_desc)
  have e: "fst (list_products fmt (Some (s\<lparr>product := []\<rparr>))) = Inr []"
    by (simp add: list_products_def find_sort_def sort_desc_def)
  from a b c d e show ?thesis by blast
qed

theorem list_products_newest_first_witness:
  "fst (list_products (\<lambda>_. []) (Some sample_store))
     = Inr [[(''title'', VStr ''Star''), (''created_at'', VDate 7),
             (''id'', VStr ''aaaaaaaaaaaaaaaaaaaaaaaa'')],
            [(''title'', VStr ''Tree''), (''price'', VFloat 5), (''created_at'', VDate 1),
             (''id'', VStr ''0123456789abcdef01234567'')]]
   \<and> fst (list_products (\<lambda>_. []) None) = Inr []"
  using list_products_newest_first [of "\<lambda>_. []" sample_store]
  by (auto simp: sample_store_def sort_desc_def serialize_dict_def dict_get_def)

section \<open>Null fields are never written\<close>

lemma dump_field_filter:
  "(\<And>x. wrap x \<noteq> VNone) \<Longrightarrow>
   filter (\<lambda>(k, v). v \<noteq> VNone) (dump_field k wrap f) = dump_field k wrap (null_to_unset f)"
  by (cases f) auto

lemma update_data_without_nulls:
  "update_data p = model_dump_exclude_unset (without_nulls p)"
  by (simp add: update_data_def model_dump_exclude_unset_def without_nulls_def dump_field_filter)

lemma without_nulls_idem: "without_nulls (without_nulls p) = without_nulls p"
  by (cases "title p"; cases "description p"; cases "price p"; cases "category p";
      cases "in_stock p") (simp_all add: without_nulls_def)

lemma update_data_no_null: "VNone \<notin> snd ` set (update_data p)"
  by (auto simp: update_data_def)

lemma only_nulls_update_data: "only_nulls p \<Longrightarrow> update_data p = []"
  by (auto simp: only_nulls_def update_data_def model_dump_exclude_unset_def)

lemma update_product_by_data:
  "update_data p = update_data q \<Longrightarrow>
   update_product fmt now db pid p = update_product fmt now db pid q"
  by (cases db; cases "PyObjectId_validate pid") (simp_all add: update_product_def)

lemma update_values: "set (AList.update k v al) \<subseteq> insert (k, v) (set al)"
  by (induction al) auto

lemma set_fields_keeps:
  "VNone \<notin> snd ` set data \<Longrightarrow> keeps_non_null d (set_fields data d)"
  unfolding set_fields_def keeps_non_null_def
proof (induction data arbitrary: d)
  case Nil
  then show ?case by simp
next
  case (Cons kv data)
  obtain k v where kv: "kv = (k, v)" by (cases kv)
  from Cons.prems kv have v: "v \<noteq> VNone" and rest: "VNone \<notin> snd ` set data"
    by auto
  show ?case
  proof (intro allI impI)
    fix j
    assume "map_of (fold (\<lambda>(k, v). AList.update k v) (kv # data) d) j = Some VNone"
    then have "map_of (fold (\<lambda>(k, v). AList.update k v) data (AList.update k v d)) j
                 = Some VNone"
      by (simp add: kv)
    with Cons.IH [OF rest] have "map_of (AList.update k v d) j = Some VNone"
      by blast
    with v show "map_of d j = Some VNone"
      by (simp add: update_conv' split: if_splits)
  qed
qed

lemma keeps_non_null_refl: "keeps_non_null d d"
  by (simp add: keeps_non_null_def)

lemma update_first_keeps:
  "VNone \<notin> snd ` set data \<Longrightarrow>
   list_all2 keeps_non_null ds (snd (update_first oid data ds))"
  by (induction ds) (auto simp: set_fields_keeps keeps_non_null_refl list_all2_refl)

lemma stamped_no_null: "VNone \<notin> snd ` set (AList.update ''updated_at'' (VDate now) (update_data p))"
  using update_values [of "''updated_at''" "VDate now" "update_data p"] update_data_no_null [of p]
  by force

lemma update_product_store:
  "\<exists>s'. snd (update_product fmt now (Some s) pid p) = Some s'
        \<and> list_all2 keeps_non_null (product s) (product s')"
proof (cases "PyObjectId_validate pid")
  case (Inl e)
  then show ?thesis
    by (simp add: update_product_def list_all2_refl keeps_non_null_refl)
next
  case (Inr oid)
  show ?thesis
  proof (cases "update_data p = []")
    case True
    with Inr show ?thesis
      by (simp add: update_product_def list_all2_refl keeps_non_null_refl)
  next
    case False
    let ?data = "AList.update ''updated_at'' (VDate now) (update_data p)"
    have "list_all2 keeps_non_null (product s) (snd (update_first oid ?data (product s)))"
      by (rule update_first_keeps) (rule stamped_no_null)
    with Inr False show ?thesis
      by (simp add: update_product_def Let_def update_one_def find_one_def)
  qed
qed

text \<open>
  C6. The update set is the dump of the request with its \<open>null\<close> fields left out and
  holds no \<open>null\<close>; update behaves at a request as at the request without its \<open>null\<close>
  fields, so a request of \<open>null\<close>s only behaves as \<open>{}\<close>; and after any update every
  stored document has a \<open>null\<close> only where it had one before.
\<close>

theorem nulls_are_not_set:
  "update_data payload = model_dump_exclude_unset (without_nulls payload)
   \<and> update_data payload = update_data (without_nulls payload)
   \<and> VNone \<notin> snd ` set (update_data payload)
   \<and> update_product fmt now db pid payload
       = update_product fmt now db pid (without_nulls payload)
   \<and> (only_nulls payload \<longrightarrow>
        update_product fmt now db pid payload = update_product fmt now db pid empty_payload)
   \<and> (\<exists>s'. snd (update_product fmt now (Some s) pid payload) = Some s'
          \<and> list_all2 keeps_non_null (product s) (product s'))"
proof -
  have a: "update_data payload = model_dump_exclude_unset (without_nulls payload)"
    by (rule update_data_without_nulls)
  have b: "update_data payload = update_data (without_nulls payload)"
    using update_data_without_nulls [of "without_nulls payload"]
    by (simp add: a without_nulls_idem)
  have c: "VNone \<notin> snd ` set (update_data payload)"
    by (rule update_data_no_null)
  have d: "update_product fmt now db pid payload
             = update_product fmt now db pid (without_nulls payload)"
    using b by (rule update_product_by_data)
  have e: "update_product fmt now db pid payload = update_product fmt now db pid empty_payload"
    if "only_nulls payload"
    using that by (intro update_product_by_data) (simp add: only_nulls_update_data)
  from a b c d e update_product_store [of fmt now s pid payload] show ?thesis
    by blast
qed

theorem nulls_are_not_set_witness:
  "only_nulls null_price
   \<and> update_product (\<lambda>_. []) 9 (Some sample_store) ''0123456789abcdef01234567'' null_price
       = update_product (\<lambda>_. []) 9 (Some sample_store) ''0123456789abcdef01234567'' empty_payload
   \<and> update_product (\<lambda>_. []) 9 (Some sample_store) ''0123456789abcdef01234567'' null_price
       = (Inl (HTTPException 400 ''No fields to update''), Some sample_store)
   \<and> fst (update_product (\<lambda>_. []) 9 (Some sample_store) ''0123456789abcdef01234567''
            \<lparr>title = SetTo ''Pine'', description = Unset, price = SetNone, category = Unset,
             in_stock = Unset\<rparr>)
       = Inr (Some [(''title'', VStr ''Pine''), (''price'', VFloat 5), (''created_at'', VDate 1),
                    (''updated_at'', VDate 9), (''id'', VStr ''0123456789abcdef01234567'')])"
proof -
  let ?pid = "''0123456789abcdef01234567''"
  have n: "only_nulls null_price"
    by (simp add: only_nulls_def null_price_def)
  have ok: "is_valid ?pid"
    by (simp add: is_valid_def is_hex_digit_def)
  have same: "update_product (\<lambda>_. []) 9 (Some sample_store) ?pid null_price
      = update_product (\<lambda>_. []) 9 (Some sample_store) ?pid empty_payload"
    using nulls_are_not_set [of null_price "\<lambda>_. []" 9 "Some sample_store" ?pid sample_store] n
    by blast
  have empty: "update_product (\<lambda>_. []) 9 (Some sample_store) ?pid empty_payload
      = (Inl (HTTPException 400 ''No fields to update''), Some sample_store)"
    by (simp add: update_product_def validate_valid [OF ok])
  have kept: "fst (update_product (\<lambda>_. []) 9 (Some sample_store) ?pid
            \<lparr>title = SetTo ''Pine'', description = Unset, price = SetNone, category = Unset,
             in_stock = Unset\<rparr>)
       = Inr (Some [(''title'', VStr ''Pine''), (''price'', VFloat 5), (''created_at'', VDate 1),
                    (''updated_at'', VDate 9), (''id'', VStr ''0123456789abcdef01234567'')])"
    by (simp add: update_product_def validate_valid [OF ok]
        update_data_def model_dump_exclude_unset_def update_one_def find_one_def
        sample_store_def matches_def ObjectId_def lower_hex_def set_fields_def
        serialize_doc_def serialize_dict_def dict_get_def)
  from n same empty kept show ?thesis by simp
qed

end
